theory Spec2Isabelle
  imports Main
begin

section \<open>The message-handling module (external\_scripts/message\_handling.py)\<close>

text \<open>
  The module has two classes. \<open>LoggerGenerator\<close> builds a named logger with a file
  handler; \<open>MessageHandlingObject\<close> holds an optional logger and offers the three
  dispatch methods \<open>_print\<close>, \<open>_warn\<close> and \<open>_raise\<close>, each wrapped by the decorator
  \<open>_locked_log_process\<close>.

  Python strings are lists of characters; the model covers the code points below 256.
  An \<open>Optional[str]\<close> argument is a \<open>string option\<close>. Objects of the logging backend
  live in a store and are named by references (natural numbers), so that sharing a
  logger is sharing a reference. Everything the module sends to the console, to the
  warning channel, to a logger or to its lock is appended to a trace.
\<close>

subsection \<open>Exceptions and results\<close>

datatype exn =
    ValueError string
  | OSError string
  | RuntimeError string
  | OtherError string string

text \<open>The two \<open>ValueError\<close>s the module raises itself, under the names the
  specification gives them.\<close>

definition ConfigurationConflict :: exn where
  "ConfigurationConflict =
     ValueError ''Must choose between providing an existing logger or specify itialization arguments. Cannot do both.''"

definition InvalidConfiguration :: exn where
  "InvalidConfiguration = ValueError ''Invalid option for logger level.''"

text \<open>A dispatch method returns, raises, or waits for the lock; a sequential run
  that waits for a lock that is held never gets past the wait.\<close>

datatype 'a outcome = Returned 'a | Raised exn | Blocked

subsection \<open>The logging backend\<close>

definition logging_NOTSET :: int where "logging_NOTSET = 0"
definition logging_DEBUG :: int where "logging_DEBUG = 10"
definition logging_INFO :: int where "logging_INFO = 20"
definition logging_WARNING :: int where "logging_WARNING = 30"
definition logging_ERROR :: int where "logging_ERROR = 40"
definition logging_CRITICAL :: int where "logging_CRITICAL = 50"

record logger_obj =
  lg_name :: string
  lg_level :: int
  lg_handlers :: "nat list"

record handler_obj =
  fh_path :: string
  fh_level :: int
  fh_formatter :: "string option"

datatype payload = Text string | ErrorObj exn

text \<open>\<open>LogCall r lvl msg exc\<close> is a record handed to logger \<open>r\<close> at severity \<open>lvl\<close>;
  \<open>exc\<close> says whether the exception context goes with it. Whether the backend
  writes the record depends on the thresholds of the logger and its handlers, which
  the module does not look at.\<close>

datatype event =
    Console string "(string \<times> string) list"
  | ProcessWarning string
  | LogCall nat int payload bool
  | LockAcquire
  | LockRelease

record world =
  loggerDict :: "string \<rightharpoonup> nat"
  loggers :: "nat \<Rightarrow> logger_obj"
  next_logger :: nat
  file_handlers :: "nat \<Rightarrow> handler_obj"
  next_handler :: nat
  openable :: "string \<Rightarrow> bool"
  format_valid :: "string \<Rightarrow> bool"
  trace :: "event list"

definition emit :: "event \<Rightarrow> world \<Rightarrow> world" where
  "emit e w = w\<lparr>trace := trace w @ [e]\<rparr>"

text \<open>\<open>logging.getLogger(name)\<close>: the logger registered under the name, created
  on first use.\<close>

definition getLogger :: "string \<Rightarrow> world \<Rightarrow> nat \<times> world" where
  "getLogger name w =
     (case loggerDict w name of
        Some r \<Rightarrow> (r, w)
      | None \<Rightarrow>
          (let r = next_logger w in
           (r, w\<lparr>loggerDict := (loggerDict w)(name \<mapsto> r),
                 loggers := (loggers w)
                   (r := \<lparr>lg_name = name, lg_level = logging_NOTSET, lg_handlers = []\<rparr>),
                 next_logger := Suc r\<rparr>)))"

text \<open>\<open>logging.FileHandler(path)\<close>: opens the file and gives a new handler, or
  fails with the operating system's error.\<close>

definition FileHandler :: "string \<Rightarrow> world \<Rightarrow> (exn + nat) \<times> world" where
  "FileHandler path w =
     (if openable w path then
        (let h = next_handler w in
         (Inr h, w\<lparr>file_handlers := (file_handlers w)
                      (h := \<lparr>fh_path = path, fh_level = logging_NOTSET, fh_formatter = None\<rparr>),
                    next_handler := Suc h\<rparr>))
      else (Inl (OSError path), w))"

text \<open>The two kinds of object \<open>_set_logger_level\<close> calls \<open>setLevel\<close> on.\<close>

datatype item = LoggerItem nat | HandlerItem nat

fun setLevel :: "item \<Rightarrow> int \<Rightarrow> world \<Rightarrow> world" where
  "setLevel (LoggerItem r) level w =
     w\<lparr>loggers := (loggers w)(r := (loggers w r)\<lparr>lg_level := level\<rparr>)\<rparr>"
| "setLevel (HandlerItem h) level w =
     w\<lparr>file_handlers := (file_handlers w)(h := (file_handlers w h)\<lparr>fh_level := level\<rparr>)\<rparr>"

text \<open>\<open>logging.Formatter(fmt)\<close> checks the template and raises \<open>ValueError\<close> on one
  it cannot use; \<open>setFormatter\<close> stores the formatter in the handler.\<close>

definition Formatter :: "string \<Rightarrow> world \<Rightarrow> exn + string" where
  "Formatter fmt w =
     (if format_valid w fmt then Inr fmt else Inl (ValueError (''Invalid format '' @ fmt)))"

definition setFormatter :: "nat \<Rightarrow> string \<Rightarrow> world \<Rightarrow> world" where
  "setFormatter h formatter w =
     w\<lparr>file_handlers := (file_handlers w)(h := (file_handlers w h)\<lparr>fh_formatter := Some formatter\<rparr>)\<rparr>"

text \<open>\<open>Logger.addHandler\<close> appends the handler unless that very handler is in the
  logger's list already.\<close>

definition addHandler :: "nat \<Rightarrow> nat \<Rightarrow> world \<Rightarrow> world" where
  "addHandler r h w =
     (if h \<in> set (lg_handlers (loggers w r)) then w
      else w\<lparr>loggers := (loggers w)
                (r := (loggers w r)\<lparr>lg_handlers := lg_handlers (loggers w r) @ [h]\<rparr>)\<rparr>)"

text \<open>\<open>str.lower()\<close> on the code points below 256: the letters A to Z and the
  accented capitals from 192 to 222 (the multiplication sign 215 apart) move up by 32.\<close>

definition lower_char :: "char \<Rightarrow> char" where
  "lower_char c =
     (let n = (of_char c :: nat) in
      if (65 \<le> n \<and> n \<le> 90) \<or> (192 \<le> n \<and> n \<le> 222 \<and> n \<noteq> 215)
      then char_of (n + 32) else c)"

definition lower :: "string \<Rightarrow> string" where
  "lower s = map lower_char s"

text \<open>Python's truth value of an \<open>Optional[str]\<close>: \<open>None\<close> and the empty string are
  false.\<close>

definition truthy :: "string option \<Rightarrow> bool" where
  "truthy x = (case x of None \<Rightarrow> False | Some s \<Rightarrow> s \<noteq> [])"

subsection \<open>LoggerGenerator\<close>

record LoggerGenerator =
  g_logger :: nat
  g_handler :: nat
  default_format :: string

definition create_logger :: "string option \<Rightarrow> world \<Rightarrow> nat \<times> world" where
  "create_logger logger_name w =
     (let name = (if \<not> truthy logger_name then ''messagehandler'' else the logger_name)
      in getLogger name w)"

definition create_file_handler :: "string \<Rightarrow> world \<Rightarrow> (exn + nat) \<times> world" where
  "create_file_handler log_filepath w = FileHandler log_filepath w"

definition LoggerGenerator_init ::
  "string \<Rightarrow> string option \<Rightarrow> world \<Rightarrow> (exn + LoggerGenerator) \<times> world" where
  "LoggerGenerator_init log_filepath logger_name w =
     (case create_logger logger_name w of
        (lg, w1) \<Rightarrow>
          (case create_file_handler log_filepath w1 of
             (Inl e, w2) \<Rightarrow> (Inl e, w2)
           | (Inr h, w2) \<Rightarrow>
               (Inr \<lparr>g_logger = lg, g_handler = h,
                     default_format = ''%(asctime)s:%(levelname)s:%(name)s:%(message)s''\<rparr>, w2)))"

definition parse_logger_level :: "string option \<Rightarrow> exn + int" where
  "parse_logger_level level_str =
     (if \<not> truthy level_str then Inr logging_INFO
      else
        (let level_str = lower (the level_str) in
         if level_str = ''debug'' then Inr logging_DEBUG
         else if level_str = ''info'' then Inr logging_INFO
         else if level_str = ''warning'' then Inr logging_WARNING
         else if level_str = ''error'' then Inr logging_ERROR
         else if level_str = ''critical'' \<or> level_str = ''fatal'' then Inr logging_CRITICAL
         else Inl InvalidConfiguration))"

definition set_logger_level ::
  "LoggerGenerator \<Rightarrow> string option \<Rightarrow> world \<Rightarrow> (exn + unit) \<times> world" where
  "set_logger_level self level_str w =
     (case parse_logger_level level_str of
        Inl e \<Rightarrow> (Inl e, w)
      | Inr level \<Rightarrow>
          (Inr (), fold (\<lambda>item. setLevel item level)
                     [LoggerItem (g_logger self), HandlerItem (g_handler self)] w))"

definition apply_formatting ::
  "LoggerGenerator \<Rightarrow> string option \<Rightarrow> world \<Rightarrow> (exn + unit) \<times> world" where
  "apply_formatting self logger_format w =
     (let logger_format = (if truthy logger_format then the logger_format
                           else default_format self)
      in case Formatter logger_format w of
           Inl e \<Rightarrow> (Inl e, w)
         | Inr formatter \<Rightarrow> (Inr (), setFormatter (g_handler self) formatter w))"

definition generate ::
  "LoggerGenerator \<Rightarrow> string option \<Rightarrow> string option \<Rightarrow> world \<Rightarrow> (exn + nat) \<times> world" where
  "generate self logger_level logger_format w =
     (case set_logger_level self logger_level w of
        (Inl e, w1) \<Rightarrow> (Inl e, w1)
      | (Inr _, w1) \<Rightarrow>
          (case apply_formatting self logger_format w1 of
             (Inl e, w2) \<Rightarrow> (Inl e, w2)
           | (Inr _, w2) \<Rightarrow>
               (Inr (g_logger self), addHandler (g_logger self) (g_handler self) w2)))"

subsection \<open>MessageHandlingObject\<close>

text \<open>\<open>log_lock\<close> is the state of the object's \<open>Lock\<close>: true while it is held.\<close>

record MessageHandlingObject =
  verbose :: bool
  suppress_warnings :: bool
  logger :: "nat option"
  use_threaded_log_locks :: bool
  log_lock :: bool

definition init_logger ::
  "string option \<Rightarrow> string option \<Rightarrow> string option \<Rightarrow> string option \<Rightarrow> nat option
     \<Rightarrow> world \<Rightarrow> (exn + nat option) \<times> world" where
  "init_logger log_filepath logger_name logger_level logger_format shared_logger w =
     (if shared_logger \<noteq> None \<and>
         list_ex truthy [log_filepath, logger_name, logger_level, logger_format]
      then (Inl ConfigurationConflict, w)
      else if shared_logger = None then
        (case log_filepath of
           None \<Rightarrow> (Inr None, w)
         | Some path \<Rightarrow>
             (case LoggerGenerator_init path logger_name w of
                (Inl e, w1) \<Rightarrow> (Inl e, w1)
              | (Inr logger_generator, w1) \<Rightarrow>
                  (case generate logger_generator logger_level logger_format w1 of
                     (Inl e, w2) \<Rightarrow> (Inl e, w2)
                   | (Inr r, w2) \<Rightarrow> (Inr (Some r), w2))))
      else (Inr shared_logger, w))"

definition MessageHandlingObject_init ::
  "bool \<Rightarrow> bool \<Rightarrow> string option \<Rightarrow> string option \<Rightarrow> string option \<Rightarrow> string option
     \<Rightarrow> nat option \<Rightarrow> world \<Rightarrow> (exn + MessageHandlingObject) \<times> world" where
  "MessageHandlingObject_init vb sw log_filepath logger_name logger_level logger_format
       shared_logger w =
     (case init_logger log_filepath logger_name logger_level logger_format shared_logger w of
        (Inl e, w1) \<Rightarrow> (Inl e, w1)
      | (Inr lg, w1) \<Rightarrow>
          (Inr \<lparr>verbose = vb, suppress_warnings = sw, logger = lg,
                use_threaded_log_locks = False, log_lock = False\<rparr>, w1))"

definition set_logger ::
  "MessageHandlingObject \<Rightarrow> string option \<Rightarrow> string option \<Rightarrow> string option
     \<Rightarrow> string option \<Rightarrow> nat option \<Rightarrow> world
     \<Rightarrow> (exn + unit) \<times> MessageHandlingObject \<times> world" where
  "set_logger self log_filepath logger_name logger_level logger_format shared_logger w =
     (case init_logger log_filepath logger_name logger_level logger_format shared_logger w of
        (Inl e, w1) \<Rightarrow> (Inl e, self, w1)
      | (Inr lg, w1) \<Rightarrow> (Inr (), self\<lparr>logger := lg\<rparr>, w1))"

text \<open>The lock: \<open>acquire\<close> waits while the lock is held; \<open>release\<close> of a lock that is
  not held raises \<open>RuntimeError\<close>.\<close>

definition acquire ::
  "MessageHandlingObject \<Rightarrow> world \<Rightarrow> unit outcome \<times> MessageHandlingObject \<times> world" where
  "acquire self w =
     (if log_lock self then (Blocked, self, w)
      else (Returned (), self\<lparr>log_lock := True\<rparr>, emit LockAcquire w))"

definition release ::
  "MessageHandlingObject \<Rightarrow> world \<Rightarrow> unit outcome \<times> MessageHandlingObject \<times> world" where
  "release self w =
     (if log_lock self then (Returned (), self\<lparr>log_lock := False\<rparr>, emit LockRelease w)
      else (Raised (RuntimeError ''release unlocked lock''), self, w))"

text \<open>The decorator. An exception of the wrapped function, or of a lock operation,
  leaves the wrapper at once: the statements after it do not run.\<close>

definition locked_log_process ::
  "(MessageHandlingObject \<Rightarrow> world \<Rightarrow> 'a outcome \<times> MessageHandlingObject \<times> world)
     \<Rightarrow> MessageHandlingObject \<Rightarrow> world \<Rightarrow> 'a outcome \<times> MessageHandlingObject \<times> world" where
  "locked_log_process func self w =
     (let locked = use_threaded_log_locks self in
      case (if locked then acquire self w else (Returned (), self, w)) of
        (Blocked, self1, w1) \<Rightarrow> (Blocked, self1, w1)
      | (Raised e, self1, w1) \<Rightarrow> (Raised e, self1, w1)
      | (Returned _, self1, w1) \<Rightarrow>
          (case func self1 w1 of
             (Blocked, self2, w2) \<Rightarrow> (Blocked, self2, w2)
           | (Raised e, self2, w2) \<Rightarrow> (Raised e, self2, w2)
           | (Returned output, self2, w2) \<Rightarrow>
               (case (if locked then release self2 w2 else (Returned (), self2, w2)) of
                  (Blocked, self3, w3) \<Rightarrow> (Blocked, self3, w3)
                | (Raised e, self3, w3) \<Rightarrow> (Raised e, self3, w3)
                | (Returned _, self3, w3) \<Rightarrow> (Returned output, self3, w3))))"

text \<open>The bodies of the three dispatch methods, before decoration.\<close>

definition print_func ::
  "string \<Rightarrow> (string \<times> string) list \<Rightarrow> MessageHandlingObject \<Rightarrow> world
     \<Rightarrow> unit outcome \<times> MessageHandlingObject \<times> world" where
  "print_func string kwargs self w =
     (let w1 = (if verbose self then emit (Console string kwargs) w else w);
          w2 = (case logger self of
                  None \<Rightarrow> w1
                | Some lg \<Rightarrow> emit (LogCall lg logging_INFO (Text string) False) w1)
      in (Returned (), self, w2))"

definition warn_func ::
  "string \<Rightarrow> MessageHandlingObject \<Rightarrow> world
     \<Rightarrow> unit outcome \<times> MessageHandlingObject \<times> world" where
  "warn_func string self w =
     (let w1 = (if \<not> suppress_warnings self then emit (ProcessWarning string) w else w);
          w2 = (case logger self of
                  None \<Rightarrow> w1
                | Some lg \<Rightarrow> emit (LogCall lg logging_WARNING (Text string) False) w1)
      in (Returned (), self, w2))"

definition raise_func ::
  "exn \<Rightarrow> MessageHandlingObject \<Rightarrow> world
     \<Rightarrow> unit outcome \<times> MessageHandlingObject \<times> world" where
  "raise_func error self w =
     (let w1 = (case logger self of
                  None \<Rightarrow> w
                | Some lg \<Rightarrow> emit (LogCall lg logging_ERROR (ErrorObj error) True) w)
      in (Raised error, self, w1))"

text \<open>The decorated methods \<open>_print\<close>, \<open>_warn\<close> and \<open>_raise\<close>.\<close>

definition mh_print ::
  "MessageHandlingObject \<Rightarrow> string \<Rightarrow> (string \<times> string) list \<Rightarrow> world
     \<Rightarrow> unit outcome \<times> MessageHandlingObject \<times> world" where
  "mh_print self string kwargs w = locked_log_process (print_func string kwargs) self w"

definition mh_warn ::
  "MessageHandlingObject \<Rightarrow> string \<Rightarrow> world
     \<Rightarrow> unit outcome \<times> MessageHandlingObject \<times> world" where
  "mh_warn self string w = locked_log_process (warn_func string) self w"

definition mh_raise ::
  "MessageHandlingObject \<Rightarrow> exn \<Rightarrow> world
     \<Rightarrow> unit outcome \<times> MessageHandlingObject \<times> world" where
  "mh_raise self error w = locked_log_process (raise_func error) self w"

subsection \<open>What a run shows\<close>

text \<open>The output events of a trace: console lines, process warnings and records
  handed to a logger. Lock operations are not output.\<close>

fun is_output :: "event \<Rightarrow> bool" where
  "is_output LockAcquire = False"
| "is_output LockRelease = False"
| "is_output _ = True"

definition outputs :: "event list \<Rightarrow> event list" where
  "outputs tr = filter is_output tr"

text \<open>A process that has not touched the logging backend yet, in which every file
  can be opened and every template is accepted.\<close>

definition fresh_world :: world where
  "fresh_world =
     \<lparr>loggerDict = Map.empty,
      loggers = (\<lambda>_. \<lparr>lg_name = [], lg_level = logging_NOTSET, lg_handlers = []\<rparr>),
      next_logger = 0,
      file_handlers = (\<lambda>_. \<lparr>fh_path = [], fh_level = logging_NOTSET, fh_formatter = None\<rparr>),
      next_handler = 0,
      openable = (\<lambda>_. True),
      format_valid = (\<lambda>_. True),
      trace = []\<rparr>"

text \<open>An object without a logger, as the constructor's defaults give it.\<close>

definition silent_object :: MessageHandlingObject where
  "silent_object =
     \<lparr>verbose = False, suppress_warnings = False, logger = None,
      use_threaded_log_locks = False, log_lock = False\<rparr>"

text \<open>An object that shares logger 0 and echoes to the console.\<close>

definition shared_object :: MessageHandlingObject where
  "shared_object =
     \<lparr>verbose = True, suppress_warnings = False, logger = Some 0,
      use_threaded_log_locks = False, log_lock = False\<rparr>"

text \<open>The thresholds of a generator's logger and of its handler, in this order.\<close>

definition thresholds :: "LoggerGenerator \<Rightarrow> world \<Rightarrow> int \<times> int" where
  "thresholds g w = (lg_level (loggers w (g_logger g)), fh_level (file_handlers w (g_handler g)))"

text \<open>The generator and the backend that
  \<open>LoggerGenerator("test.log", "testing")\<close> gives in a fresh process.\<close>

definition test_generator :: LoggerGenerator where
  "test_generator =
     \<lparr>g_logger = 0, g_handler = 0,
      default_format = ''%(asctime)s:%(levelname)s:%(name)s:%(message)s''\<rparr>"

definition test_world :: world where
  "test_world =
     fresh_world
       \<lparr>loggerDict := [''testing'' \<mapsto> 0],
        loggers := (loggers fresh_world)
          (0 := \<lparr>lg_name = ''testing'', lg_level = logging_NOTSET, lg_handlers = []\<rparr>),
        next_logger := 1,
        file_handlers := (file_handlers fresh_world)
          (0 := \<lparr>fh_path = ''test.log'', fh_level = logging_NOTSET, fh_formatter = None\<rparr>),
        next_handler := 1\<rparr>"

text \<open>The handlers attached to the logger registered under a name; none when no
  logger has that name yet.\<close>

definition attached :: "world \<Rightarrow> string \<Rightarrow> nat list" where
  "attached w name =
     (case loggerDict w name of None \<Rightarrow> [] | Some r \<Rightarrow> lg_handlers (loggers w r))"

text \<open>The loggers that the records of a trace were handed to, in order.\<close>

fun log_destinations :: "event list \<Rightarrow> nat list" where
  "log_destinations [] = []"
| "log_destinations (LogCall r _ _ _ # es) = r # log_destinations es"
| "log_destinations (_ # es) = log_destinations es"

section \<open>Properties\<close>

subsection \<open>Which errors the logger-sourcing code raises\<close>

lemma LoggerGenerator_init_error:
  "LoggerGenerator_init p n w = (Inl e, w') \<Longrightarrow> e = OSError p"
  by (auto simp: LoggerGenerator_init_def create_file_handler_def FileHandler_def Let_def
           split: prod.splits sum.splits if_splits)

lemma parse_logger_level_error:
  "parse_logger_level l = Inl e \<Longrightarrow> e = InvalidConfiguration"
  unfolding parse_logger_level_def Let_def by (simp split: if_splits)

lemma set_logger_level_error:
  "set_logger_level g l w = (Inl e, w') \<Longrightarrow> e = InvalidConfiguration \<and> w' = w"
  unfolding set_logger_level_def
  by (cases "parse_logger_level l") (auto dest: parse_logger_level_error)

lemma apply_formatting_error:
  "apply_formatting g f w = (Inl e, w') \<Longrightarrow> (\<exists>fmt. e = ValueError (''Invalid format '' @ fmt)) \<and> w' = w"
  unfolding apply_formatting_def Formatter_def Let_def
  by (auto split: if_splits)

lemma generate_error:
  assumes "generate g l f w = (Inl e, w')"
  shows "e = InvalidConfiguration \<or> (\<exists>fmt. e = ValueError (''Invalid format '' @ fmt))"
proof (cases "set_logger_level g l w")
  case (Pair a w1)
  show ?thesis
  proof (cases a)
    case (Inl e1)
    with Pair assms show ?thesis
      by (auto simp: generate_def dest: set_logger_level_error)
  next
    case (Inr u)
    show ?thesis
    proof (cases "apply_formatting g f w1")
      case (Pair b w2)
      with \<open>set_logger_level g l w = (a, w1)\<close> Inr assms show ?thesis
        by (cases b) (auto simp: generate_def dest: apply_formatting_error)
    qed
  qed
qed

lemma init_logger_conflict:
  "sh \<noteq> None \<Longrightarrow> truthy fp \<or> truthy n \<or> truthy l \<or> truthy f \<Longrightarrow>
     init_logger fp n l f sh w = (Inl ConfigurationConflict, w)"
  by (auto simp: init_logger_def)

lemma init_logger_shared:
  "\<not> truthy fp \<Longrightarrow> \<not> truthy n \<Longrightarrow> \<not> truthy l \<Longrightarrow> \<not> truthy f \<Longrightarrow>
     init_logger fp n l f (Some r) w = (Inr (Some r), w)"
  by (simp add: init_logger_def)

lemma init_logger_absent:
  "init_logger None n l f None w = (Inr None, w)"
  by (simp add: init_logger_def)

lemma init_logger_generated:
  "init_logger (Some p) n l f None w =
     (case LoggerGenerator_init p n w of
        (Inl e, w1) \<Rightarrow> (Inl e, w1)
      | (Inr g, w1) \<Rightarrow>
          (case generate g l f w1 of
             (Inl e, w2) \<Rightarrow> (Inl e, w2)
           | (Inr r, w2) \<Rightarrow> (Inr (Some r), w2)))"
  by (simp add: init_logger_def)

lemma LoggerGenerator_init_no_conflict:
  "LoggerGenerator_init p n w = (Inl e, w') \<Longrightarrow> e \<noteq> ConfigurationConflict"
  by (auto simp: ConfigurationConflict_def dest!: LoggerGenerator_init_error)

lemma generate_no_conflict:
  "generate g l f w = (Inl e, w') \<Longrightarrow> e \<noteq> ConfigurationConflict"
  by (auto simp: ConfigurationConflict_def InvalidConfiguration_def dest!: generate_error)

lemma init_logger_generated_no_conflict:
  "fst (init_logger (Some p) n l f None w) \<noteq> Inl ConfigurationConflict"
proof (cases "LoggerGenerator_init p n w")
  case (Pair a w1)
  show ?thesis
  proof (cases a)
    case (Inl e)
    with Pair show ?thesis
      by (auto simp: init_logger_generated dest: LoggerGenerator_init_no_conflict)
  next
    case (Inr g)
    show ?thesis
    proof (cases "generate g l f w1")
      case (Pair b w2)
      with \<open>LoggerGenerator_init p n w = (a, w1)\<close> Inr show ?thesis
        by (cases b) (auto simp: init_logger_generated dest: generate_no_conflict)
    qed
  qed
qed

lemma init_logger_conflict_iff:
  "fst (init_logger fp n l f sh w) = Inl ConfigurationConflict \<longleftrightarrow>
     sh \<noteq> None \<and> (truthy fp \<or> truthy n \<or> truthy l \<or> truthy f)"
proof (cases "sh \<noteq> None \<and> (truthy fp \<or> truthy n \<or> truthy l \<or> truthy f)")
  case True
  then show ?thesis using init_logger_conflict [of sh fp n l f w] by auto
next
  case False
  have "fst (init_logger fp n l f sh w) \<noteq> Inl ConfigurationConflict"
  proof (cases sh)
    case None
    show ?thesis
    proof (cases fp)
      case None
      with \<open>sh = None\<close> show ?thesis by (simp add: init_logger_absent)
    next
      case (Some p)
      with \<open>sh = None\<close> show ?thesis by (simp add: init_logger_generated_no_conflict)
    qed
  next
    case (Some r)
    with False show ?thesis by (simp add: init_logger_shared)
  qed
  with False show ?thesis by simp
qed

text \<open>
  Claim C1, as the code has it. Construction and \<open>set_logger\<close> fail with
  ConfigurationConflict exactly when a shared logger is given together with a non-empty
  value of \<open>log_filepath\<close>, \<open>logger_name\<close>, \<open>logger_level\<close> or \<open>logger_format\<close>,
  whichever of the four it is; the rule is the same for both operations, and the failure
  leaves the backend and the object as they were.
\<close>

theorem shared_logger_conflict:
  "(fst (MessageHandlingObject_init vb sw fp n l f sh w) = Inl ConfigurationConflict
      \<longleftrightarrow> sh \<noteq> None \<and> (truthy fp \<or> truthy n \<or> truthy l \<or> truthy f)) \<and>
   (fst (set_logger self fp n l f sh w) = Inl ConfigurationConflict
      \<longleftrightarrow> sh \<noteq> None \<and> (truthy fp \<or> truthy n \<or> truthy l \<or> truthy f)) \<and>
   (sh \<noteq> None \<and> (truthy fp \<or> truthy n \<or> truthy l \<or> truthy f) \<longrightarrow>
      MessageHandlingObject_init vb sw fp n l f sh w = (Inl ConfigurationConflict, w) \<and>
      set_logger self fp n l f sh w = (Inl ConfigurationConflict, self, w))"
proof -
  have eq1: "fst (MessageHandlingObject_init vb sw fp n l f sh w) = Inl ConfigurationConflict
      \<longleftrightarrow> fst (init_logger fp n l f sh w) = Inl ConfigurationConflict"
    by (auto simp: MessageHandlingObject_init_def split: prod.splits sum.splits)
  have eq2: "fst (set_logger self fp n l f sh w) = Inl ConfigurationConflict
      \<longleftrightarrow> fst (init_logger fp n l f sh w) = Inl ConfigurationConflict"
    by (auto simp: set_logger_def split: prod.splits sum.splits)
  have fail: "MessageHandlingObject_init vb sw fp n l f sh w = (Inl ConfigurationConflict, w) \<and>
      set_logger self fp n l f sh w = (Inl ConfigurationConflict, self, w)"
    if "sh \<noteq> None \<and> (truthy fp \<or> truthy n \<or> truthy l \<or> truthy f)"
    using that init_logger_conflict [of sh fp n l f w]
    by (simp add: MessageHandlingObject_init_def set_logger_def)
  show ?thesis
    using eq1 eq2 fail init_logger_conflict_iff [of fp n l f sh w] by blast
qed

theorem shared_logger_conflict_witness:
  "MessageHandlingObject_init True False None (Some ''testing'') None None (Some 0) test_world
     = (Inl ConfigurationConflict, test_world) \<and>
   set_logger silent_object None (Some ''testing'') None None (Some 0) test_world
     = (Inl ConfigurationConflict, silent_object, test_world)"
  using shared_logger_conflict [of True False None "Some ''testing''" None None "Some 0"
          test_world silent_object]
  by (simp add: truthy_def)

text \<open>
  Claim C1 as stated fails where a parameter is given but empty: a shared logger
  with \<open>logger_name = ""\<close> is accepted.
\<close>

theorem empty_string_no_conflict_counterexample:
  "fst (MessageHandlingObject_init False False None (Some '''') None None (Some 0) test_world)
     \<noteq> Inl ConfigurationConflict \<and>
   MessageHandlingObject_init False False None (Some '''') None None (Some 0) test_world
     = (Inr (silent_object\<lparr>logger := Some 0\<rparr>), test_world)"
  by (simp add: MessageHandlingObject_init_def init_logger_def truthy_def silent_object_def)

text \<open>
  Claim C10. When a shared logger is given and each of the four other parameters is
  absent or the empty string, construction and \<open>set_logger\<close> raise nothing and adopt
  the shared logger: the check looks at the truth value of the parameters, not at
  their presence.
\<close>

theorem shared_logger_with_empty_strings:
  "\<not> truthy fp \<Longrightarrow> \<not> truthy n \<Longrightarrow> \<not> truthy l \<Longrightarrow> \<not> truthy f \<Longrightarrow>
     MessageHandlingObject_init vb sw fp n l f (Some r) w =
       (Inr \<lparr>verbose = vb, suppress_warnings = sw, logger = Some r,
             use_threaded_log_locks = False, log_lock = False\<rparr>, w) \<and>
     set_logger self fp n l f (Some r) w = (Inr (), self\<lparr>logger := Some r\<rparr>, w)"
  by (simp add: MessageHandlingObject_init_def set_logger_def init_logger_shared)

theorem shared_logger_with_empty_strings_witness:
  "MessageHandlingObject_init True True (Some '''') None (Some '''') None (Some 0) test_world =
       (Inr \<lparr>verbose = True, suppress_warnings = True, logger = Some 0,
             use_threaded_log_locks = False, log_lock = False\<rparr>, test_world) \<and>
   set_logger silent_object (Some '''') None (Some '''') None (Some 0) test_world =
       (Inr (), silent_object\<lparr>logger := Some 0\<rparr>, test_world)"
  using shared_logger_with_empty_strings [of "Some ''''" None "Some ''''" None True True 0
          test_world silent_object]
  by (simp add: truthy_def)

subsection \<open>The decorator and the dispatch methods\<close>

lemma locked_log_process_off:
  "\<not> use_threaded_log_locks self \<Longrightarrow> locked_log_process func self w = func self w"
  by (auto simp: locked_log_process_def split: prod.splits outcome.splits)

lemma locked_log_process_held:
  "use_threaded_log_locks self \<Longrightarrow> log_lock self \<Longrightarrow>
     locked_log_process func self w = (Blocked, self, w)"
  by (simp add: locked_log_process_def acquire_def)

lemma locked_log_process_returned:
  "use_threaded_log_locks self \<Longrightarrow> \<not> log_lock self \<Longrightarrow>
   func (self\<lparr>log_lock := True\<rparr>) (emit LockAcquire w) = (Returned x, self\<lparr>log_lock := True\<rparr>, w2) \<Longrightarrow>
     locked_log_process func self w = (Returned x, self, emit LockRelease w2)"
  by (simp add: locked_log_process_def acquire_def release_def)

lemma locked_log_process_raised:
  "use_threaded_log_locks self \<Longrightarrow> \<not> log_lock self \<Longrightarrow>
   func (self\<lparr>log_lock := True\<rparr>) (emit LockAcquire w) = (Raised e, s2, w2) \<Longrightarrow>
     locked_log_process func self w = (Raised e, s2, w2)"
  by (simp add: locked_log_process_def acquire_def)

lemma outputs_append [simp]: "outputs (xs @ ys) = outputs xs @ outputs ys"
  by (simp add: outputs_def)

lemma outputs_simps [simp]:
  "outputs [] = []"
  "outputs (LockAcquire # xs) = outputs xs"
  "outputs (LockRelease # xs) = outputs xs"
  "outputs (Console m k # xs) = Console m k # outputs xs"
  "outputs (ProcessWarning m # xs) = ProcessWarning m # outputs xs"
  "outputs (LogCall r lv p b # xs) = LogCall r lv p b # outputs xs"
  by (simp_all add: outputs_def)

lemma print_func_trace:
  "print_func m kwargs self w =
     (Returned (), self,
      w\<lparr>trace := trace w @
           (if verbose self then [Console m kwargs] else []) @
           (case logger self of None \<Rightarrow> []
            | Some lg \<Rightarrow> [LogCall lg logging_INFO (Text m) False])\<rparr>)"
  by (simp add: print_func_def emit_def split: option.splits)

lemma warn_func_trace:
  "warn_func m self w =
     (Returned (), self,
      w\<lparr>trace := trace w @
           (if suppress_warnings self then [] else [ProcessWarning m]) @
           (case logger self of None \<Rightarrow> []
            | Some lg \<Rightarrow> [LogCall lg logging_WARNING (Text m) False])\<rparr>)"
  by (simp add: warn_func_def emit_def split: option.splits)

lemma raise_func_trace:
  "raise_func e self w =
     (Raised e, self,
      w\<lparr>trace := trace w @
           (case logger self of None \<Rightarrow> []
            | Some lg \<Rightarrow> [LogCall lg logging_ERROR (ErrorObj e) True])\<rparr>)"
  by (simp add: raise_func_def emit_def split: option.splits)

lemma mh_print_trace:
  assumes "use_threaded_log_locks self \<longrightarrow> \<not> log_lock self"
  shows "mh_print self m kwargs w =
     (Returned (), self,
      w\<lparr>trace := trace w @
           (if use_threaded_log_locks self then [LockAcquire] else []) @
           (if verbose self then [Console m kwargs] else []) @
           (case logger self of None \<Rightarrow> []
            | Some lg \<Rightarrow> [LogCall lg logging_INFO (Text m) False]) @
           (if use_threaded_log_locks self then [LockRelease] else [])\<rparr>)"
proof (cases "use_threaded_log_locks self")
  case False
  then show ?thesis
    by (simp add: mh_print_def locked_log_process_off print_func_trace)
next
  case True
  with assms have free: "\<not> log_lock self" by simp
  show ?thesis
    unfolding mh_print_def
    using locked_log_process_returned [where func = "print_func m kwargs", OF True free]
    by (simp add: True print_func_trace emit_def)
qed

lemma mh_warn_trace:
  assumes "use_threaded_log_locks self \<longrightarrow> \<not> log_lock self"
  shows "mh_warn self m w =
     (Returned (), self,
      w\<lparr>trace := trace w @
           (if use_threaded_log_locks self then [LockAcquire] else []) @
           (if suppress_warnings self then [] else [ProcessWarning m]) @
           (case logger self of None \<Rightarrow> []
            | Some lg \<Rightarrow> [LogCall lg logging_WARNING (Text m) False]) @
           (if use_threaded_log_locks self then [LockRelease] else [])\<rparr>)"
proof (cases "use_threaded_log_locks self")
  case False
  then show ?thesis
    by (simp add: mh_warn_def locked_log_process_off warn_func_trace)
next
  case True
  with assms have free: "\<not> log_lock self" by simp
  show ?thesis
    unfolding mh_warn_def
    using locked_log_process_returned [where func = "warn_func m", OF True free]
    by (simp add: True warn_func_trace emit_def)
qed

lemma mh_raise_trace:
  assumes "use_threaded_log_locks self \<longrightarrow> \<not> log_lock self"
  shows "mh_raise self e w =
     (Raised e, (if use_threaded_log_locks self then self\<lparr>log_lock := True\<rparr> else self),
      w\<lparr>trace := trace w @
           (if use_threaded_log_locks self then [LockAcquire] else []) @
           (case logger self of None \<Rightarrow> []
            | Some lg \<Rightarrow> [LogCall lg logging_ERROR (ErrorObj e) True])\<rparr>)"
proof (cases "use_threaded_log_locks self")
  case False
  with assms show ?thesis
    by (simp add: mh_raise_def locked_log_process_off raise_func_trace)
next
  case True
  with assms have free: "\<not> log_lock self" by simp
  show ?thesis
    unfolding mh_raise_def
    using locked_log_process_raised [where func = "raise_func e", OF True free]
    by (simp add: True raise_func_trace emit_def)
qed

lemma mh_raise_held:
  "use_threaded_log_locks self \<Longrightarrow> log_lock self \<Longrightarrow> mh_raise self e w = (Blocked, self, w)"
  by (simp add: mh_raise_def locked_log_process_held)

lemma mh_raise_never_returns: "fst (mh_raise self e w) \<noteq> Returned x"
proof (cases "use_threaded_log_locks self \<and> log_lock self")
  case True
  then show ?thesis by (simp add: mh_raise_held)
next
  case False
  then have "use_threaded_log_locks self \<longrightarrow> \<not> log_lock self" by simp
  then show ?thesis by (simp add: mh_raise_trace)
qed

text \<open>
  Claim C5. Whenever \<open>_print\<close> gets to run (thread-safety off, or its lock free), it
  returns and its output is a console line if and only if \<open>verbose\<close> is set, followed
  by an INFO record for the logger if and only if a logger is present. So with
  \<open>verbose\<close> and a logger it gives both, with a logger alone only the record, with
  neither nothing; the console part depends on \<open>verbose\<close> only and the record on the
  logger only.
\<close>

theorem print_console_and_log:
  assumes "use_threaded_log_locks self \<longrightarrow> \<not> log_lock self"
  shows "\<exists>tr. mh_print self m kwargs w = (Returned (), self, w\<lparr>trace := tr\<rparr>) \<and>
           outputs tr = outputs (trace w) @
             (if verbose self then [Console m kwargs] else []) @
             (case logger self of None \<Rightarrow> []
              | Some lg \<Rightarrow> [LogCall lg logging_INFO (Text m) False])"
  by (rule exI, rule conjI, rule mh_print_trace [OF assms]) (simp split: option.splits)

theorem print_console_and_log_witness:
  "(\<exists>tr. mh_print shared_object ''Info text'' [] test_world
            = (Returned (), shared_object, test_world\<lparr>trace := tr\<rparr>) \<and>
         outputs tr = [Console ''Info text'' [], LogCall 0 logging_INFO (Text ''Info text'') False]) \<and>
   (\<exists>tr. mh_print (shared_object\<lparr>verbose := False\<rparr>) ''Info text'' [] test_world
            = (Returned (), shared_object\<lparr>verbose := False\<rparr>, test_world\<lparr>trace := tr\<rparr>) \<and>
         outputs tr = [LogCall 0 logging_INFO (Text ''Info text'') False]) \<and>
   (\<exists>tr. mh_print silent_object ''x'' [] fresh_world
            = (Returned (), silent_object, fresh_world\<lparr>trace := tr\<rparr>) \<and>
         outputs tr = [])"
  using print_console_and_log [of shared_object "''Info text''" "[]" test_world]
        print_console_and_log [of "shared_object\<lparr>verbose := False\<rparr>" "''Info text''" "[]" test_world]
        print_console_and_log [of silent_object "''x''" "[]" fresh_world]
  by (simp add: shared_object_def silent_object_def test_world_def fresh_world_def)

text \<open>
  Claim C6. Whenever \<open>_warn\<close> gets to run, it returns and its output is a process
  warning if and only if \<open>suppress_warnings\<close> is not set, followed by a WARNING record
  for the logger if and only if a logger is present: suppression removes the process
  warning and nothing else, and the process warning does not depend on the logger.
\<close>

theorem warn_channel_and_log:
  assumes "use_threaded_log_locks self \<longrightarrow> \<not> log_lock self"
  shows "\<exists>tr. mh_warn self m w = (Returned (), self, w\<lparr>trace := tr\<rparr>) \<and>
           outputs tr = outputs (trace w) @
             (if suppress_warnings self then [] else [ProcessWarning m]) @
             (case logger self of None \<Rightarrow> []
              | Some lg \<Rightarrow> [LogCall lg logging_WARNING (Text m) False])"
  by (rule exI, rule conjI, rule mh_warn_trace [OF assms]) (simp split: option.splits)

theorem warn_channel_and_log_witness:
  "(\<exists>tr. mh_warn (shared_object\<lparr>suppress_warnings := True\<rparr>) ''Warning text'' test_world
            = (Returned (), shared_object\<lparr>suppress_warnings := True\<rparr>, test_world\<lparr>trace := tr\<rparr>) \<and>
         outputs tr = [LogCall 0 logging_WARNING (Text ''Warning text'') False]) \<and>
   (\<exists>tr. mh_warn silent_object ''y'' fresh_world
            = (Returned (), silent_object, fresh_world\<lparr>trace := tr\<rparr>) \<and>
         outputs tr = [ProcessWarning ''y''])"
  using warn_channel_and_log [of "shared_object\<lparr>suppress_warnings := True\<rparr>" "''Warning text''" test_world]
        warn_channel_and_log [of silent_object "''y''" fresh_world]
  by (simp add: shared_object_def silent_object_def test_world_def fresh_world_def)

text \<open>
  Claim C3. \<open>_raise\<close> never returns normally. Whenever it gets to run, it leaves by
  raising the very error it was given; by then the trace holds an ERROR record with
  the exception context for that error if a logger is present, and no record if there
  is none.
\<close>

theorem raise_logs_then_propagates:
  "(\<forall>x. fst (mh_raise self e w) \<noteq> Returned x) \<and>
   ((use_threaded_log_locks self \<longrightarrow> \<not> log_lock self) \<longrightarrow>
      (\<exists>self' tr. mh_raise self e w = (Raised e, self', w\<lparr>trace := tr\<rparr>) \<and>
         outputs tr = outputs (trace w) @
           (case logger self of None \<Rightarrow> []
            | Some lg \<Rightarrow> [LogCall lg logging_ERROR (ErrorObj e) True])))"
proof (intro conjI allI impI)
  fix x show "fst (mh_raise self e w) \<noteq> Returned x" by (rule mh_raise_never_returns)
next
  assume free: "use_threaded_log_locks self \<longrightarrow> \<not> log_lock self"
  show "\<exists>self' tr. mh_raise self e w = (Raised e, self', w\<lparr>trace := tr\<rparr>) \<and>
         outputs tr = outputs (trace w) @
           (case logger self of None \<Rightarrow> []
            | Some lg \<Rightarrow> [LogCall lg logging_ERROR (ErrorObj e) True])"
    by (rule exI, rule exI, rule conjI, rule mh_raise_trace [OF free])
       (simp split: option.splits)
qed

theorem raise_logs_then_propagates_witness:
  "(\<exists>self' tr. mh_raise shared_object (ValueError ''An error'') test_world
            = (Raised (ValueError ''An error''), self', test_world\<lparr>trace := tr\<rparr>) \<and>
         outputs tr = [LogCall 0 logging_ERROR (ErrorObj (ValueError ''An error'')) True]) \<and>
   (\<exists>self' tr. mh_raise silent_object (ValueError ''An error'') fresh_world
            = (Raised (ValueError ''An error''), self', fresh_world\<lparr>trace := tr\<rparr>) \<and>
         outputs tr = [])"
  using raise_logs_then_propagates [of shared_object "ValueError ''An error''" test_world]
        raise_logs_then_propagates [of silent_object "ValueError ''An error''" fresh_world]
  by (simp add: shared_object_def silent_object_def test_world_def fresh_world_def)

text \<open>
  Claim C4 says that a dispatch method acquires the lock at entry exactly when
  thread-safety is on, and releases it on every exit path, the raising one included.
  The code misses the release where the wrapped method raises: with thread-safety on,
  \<open>_raise\<close> acquires the lock and leaves by the exception with the lock still held, and
  the next dispatch on the object waits for it.
\<close>

theorem raise_leaves_lock_held:
  "mh_raise (silent_object\<lparr>use_threaded_log_locks := True\<rparr>) (ValueError ''An error'') fresh_world
     = (Raised (ValueError ''An error''),
        silent_object\<lparr>use_threaded_log_locks := True, log_lock := True\<rparr>,
        fresh_world\<lparr>trace := [LockAcquire]\<rparr>) \<and>
   mh_print (silent_object\<lparr>use_threaded_log_locks := True, log_lock := True\<rparr>) ''Info text'' []
       (fresh_world\<lparr>trace := [LockAcquire]\<rparr>)
     = (Blocked, silent_object\<lparr>use_threaded_log_locks := True, log_lock := True\<rparr>,
        fresh_world\<lparr>trace := [LockAcquire]\<rparr>)"
  by (simp add: mh_raise_def mh_print_def locked_log_process_def acquire_def raise_func_def
                emit_def silent_object_def fresh_world_def)

text \<open>
  Claim C9. A freshly constructed object has the thread-safety flag off (and its lock
  free). With the flag on and the lock free, each of \<open>_print\<close>, \<open>_warn\<close> and \<open>_raise\<close>
  acquires the lock before anything else and emits all its output while holding it.
\<close>

theorem thread_safety_flag:
  "(MessageHandlingObject_init vb sw fp n l f sh w0 = (Inr obj, w1) \<longrightarrow>
      \<not> use_threaded_log_locks obj \<and> \<not> log_lock obj) \<and>
   (use_threaded_log_locks self \<and> \<not> log_lock self \<longrightarrow>
      mh_print self m kwargs w =
        (Returned (), self,
         w\<lparr>trace := trace w @ [LockAcquire] @
              (if verbose self then [Console m kwargs] else []) @
              (case logger self of None \<Rightarrow> []
               | Some lg \<Rightarrow> [LogCall lg logging_INFO (Text m) False]) @
              [LockRelease]\<rparr>) \<and>
      mh_warn self m w =
        (Returned (), self,
         w\<lparr>trace := trace w @ [LockAcquire] @
              (if suppress_warnings self then [] else [ProcessWarning m]) @
              (case logger self of None \<Rightarrow> []
               | Some lg \<Rightarrow> [LogCall lg logging_WARNING (Text m) False]) @
              [LockRelease]\<rparr>) \<and>
      mh_raise self e w =
        (Raised e, self\<lparr>log_lock := True\<rparr>,
         w\<lparr>trace := trace w @ [LockAcquire] @
              (case logger self of None \<Rightarrow> []
               | Some lg \<Rightarrow> [LogCall lg logging_ERROR (ErrorObj e) True])\<rparr>))"
proof (intro conjI impI)
  assume "MessageHandlingObject_init vb sw fp n l f sh w0 = (Inr obj, w1)"
  then show "\<not> use_threaded_log_locks obj" "\<not> log_lock obj"
    by (auto simp: MessageHandlingObject_init_def split: prod.splits sum.splits)
next
  assume on: "use_threaded_log_locks self \<and> \<not> log_lock self"
  then have free: "use_threaded_log_locks self \<longrightarrow> \<not> log_lock self" by simp
  from on show "mh_print self m kwargs w =
        (Returned (), self,
         w\<lparr>trace := trace w @ [LockAcquire] @
              (if verbose self then [Console m kwargs] else []) @
              (case logger self of None \<Rightarrow> []
               | Some lg \<Rightarrow> [LogCall lg logging_INFO (Text m) False]) @
              [LockRelease]\<rparr>)"
    by (simp add: mh_print_trace [OF free])
  from on show "mh_warn self m w =
        (Returned (), self,
         w\<lparr>trace := trace w @ [LockAcquire] @
              (if suppress_warnings self then [] else [ProcessWarning m]) @
              (case logger self of None \<Rightarrow> []
               | Some lg \<Rightarrow> [LogCall lg logging_WARNING (Text m) False]) @
              [LockRelease]\<rparr>)"
    by (simp add: mh_warn_trace [OF free])
  from on show "mh_raise self e w =
        (Raised e, self\<lparr>log_lock := True\<rparr>,
         w\<lparr>trace := trace w @ [LockAcquire] @
              (case logger self of None \<Rightarrow> []
               | Some lg \<Rightarrow> [LogCall lg logging_ERROR (ErrorObj e) True])\<rparr>)"
    by (simp add: mh_raise_trace [OF free])
qed

theorem thread_safety_flag_witness:
  "MessageHandlingObject_init False False None None None None None fresh_world
     = (Inr silent_object, fresh_world) \<and>
   \<not> use_threaded_log_locks silent_object \<and>
   mh_print (shared_object\<lparr>use_threaded_log_locks := True\<rparr>) ''Info text'' [] test_world =
     (Returned (), shared_object\<lparr>use_threaded_log_locks := True\<rparr>,
      test_world\<lparr>trace := [LockAcquire, Console ''Info text'' [],
                              LogCall 0 logging_INFO (Text ''Info text'') False, LockRelease]\<rparr>) \<and>
   mh_warn (shared_object\<lparr>use_threaded_log_locks := True\<rparr>) ''Info text'' test_world =
     (Returned (), shared_object\<lparr>use_threaded_log_locks := True\<rparr>,
      test_world\<lparr>trace := [LockAcquire, ProcessWarning ''Info text'',
                              LogCall 0 logging_WARNING (Text ''Info text'') False, LockRelease]\<rparr>) \<and>
   mh_raise (shared_object\<lparr>use_threaded_log_locks := True\<rparr>) (ValueError ''An error'') test_world =
     (Raised (ValueError ''An error''),
      shared_object\<lparr>use_threaded_log_locks := True, log_lock := True\<rparr>,
      test_world\<lparr>trace := [LockAcquire,
                              LogCall 0 logging_ERROR (ErrorObj (ValueError ''An error'')) True]\<rparr>)"
proof -
  have init: "MessageHandlingObject_init False False None None None None None fresh_world
     = (Inr silent_object, fresh_world)"
    by (simp add: MessageHandlingObject_init_def init_logger_def silent_object_def)
  show ?thesis
    using init
      thread_safety_flag [of False False None None None None None fresh_world silent_object
        fresh_world "shared_object\<lparr>use_threaded_log_locks := True\<rparr>" "''Info text''" "[]"
        test_world "ValueError ''An error''"]
    by (simp add: shared_object_def silent_object_def test_world_def fresh_world_def)
qed

subsection \<open>Severity levels\<close>

lemma test_generator_built:
  "LoggerGenerator_init ''test.log'' (Some ''testing'') fresh_world = (Inr test_generator, test_world)"
  by (simp add: LoggerGenerator_init_def create_logger_def getLogger_def create_file_handler_def
                FileHandler_def truthy_def test_generator_def test_world_def fresh_world_def Let_def)

lemma lower_nonempty: "lower s = c # cs \<Longrightarrow> truthy (Some s)"
  by (auto simp: lower_def truthy_def)

lemma parse_logger_level_None: "parse_logger_level None = Inr logging_INFO"
  by (simp add: parse_logger_level_def truthy_def)

lemma parse_logger_level_debug:
  "lower s = ''debug'' \<Longrightarrow> parse_logger_level (Some s) = Inr logging_DEBUG"
  by (frule lower_nonempty) (simp add: parse_logger_level_def)

lemma parse_logger_level_info:
  "lower s = ''info'' \<Longrightarrow> parse_logger_level (Some s) = Inr logging_INFO"
  by (frule lower_nonempty) (simp add: parse_logger_level_def)

lemma parse_logger_level_warning:
  "lower s = ''warning'' \<Longrightarrow> parse_logger_level (Some s) = Inr logging_WARNING"
  by (frule lower_nonempty) (simp add: parse_logger_level_def)

lemma parse_logger_level_error_level:
  "lower s = ''error'' \<Longrightarrow> parse_logger_level (Some s) = Inr logging_ERROR"
  by (frule lower_nonempty) (simp add: parse_logger_level_def)

lemma parse_logger_level_critical:
  "lower s = ''critical'' \<or> lower s = ''fatal'' \<Longrightarrow>
     parse_logger_level (Some s) = Inr logging_CRITICAL"
  by (erule disjE; frule lower_nonempty) (simp_all add: parse_logger_level_def)

lemma parse_logger_level_other:
  "s \<noteq> [] \<Longrightarrow>
   lower s \<notin> {''debug'', ''info'', ''warning'', ''error'', ''critical'', ''fatal''} \<Longrightarrow>
     parse_logger_level (Some s) = Inl InvalidConfiguration"
  by (simp add: parse_logger_level_def truthy_def)

lemma set_logger_level_thresholds:
  "parse_logger_level l = Inr v \<Longrightarrow>
     fst (set_logger_level g l w) = Inr () \<and>
     thresholds g (snd (set_logger_level g l w)) = (v, v)"
  by (simp add: set_logger_level_def thresholds_def)

lemma apply_formatting_thresholds:
  "thresholds g (snd (apply_formatting g f w)) = thresholds g w"
  by (simp add: apply_formatting_def Formatter_def setFormatter_def thresholds_def Let_def)

lemma addHandler_thresholds:
  "thresholds g (addHandler r h w) = thresholds g w"
  by (simp add: addHandler_def thresholds_def)

lemma generate_thresholds:
  assumes "parse_logger_level l = Inr v"
  shows "thresholds g (snd (generate g l f w)) = (v, v)"
proof -
  obtain w1 where s1: "set_logger_level g l w = (Inr (), w1)" and t1: "thresholds g w1 = (v, v)"
    using set_logger_level_thresholds [OF assms, where g = g and w = w]
    by (cases "set_logger_level g l w") auto
  obtain b w2 where s2: "apply_formatting g f w1 = (b, w2)"
    by (cases "apply_formatting g f w1") auto
  have t2: "thresholds g w2 = (v, v)"
    using apply_formatting_thresholds [of g f w1] s2 t1 by simp
  show ?thesis
    using s1 s2 t2 by (cases b) (simp_all add: generate_def addHandler_thresholds)
qed

lemma generate_returns:
  assumes "parse_logger_level l = Inr v"
    and "format_valid w (if truthy f then the f else default_format g)"
  shows "fst (generate g l f w) = Inr (g_logger g)"
proof -
  obtain w1 where s1: "set_logger_level g l w = (Inr (), w1)"
    and fv: "format_valid w1 = format_valid w"
    using assms(1) by (simp add: set_logger_level_def)
  have "fst (apply_formatting g f w1) = Inr ()"
    using assms(2) fv by (simp add: apply_formatting_def Formatter_def Let_def)
  then show ?thesis
    using s1 by (cases "apply_formatting g f w1") (auto simp: generate_def)
qed

lemma generate_invalid:
  "parse_logger_level l = Inl e \<Longrightarrow> generate g l f w = (Inl InvalidConfiguration, w)"
  by (frule parse_logger_level_error) (simp add: generate_def set_logger_level_def)

lemma lower_examples:
  "lower ''DeBuG'' = ''debug''"
  "lower ''Info'' = ''info''"
  "lower ''WARNING'' = ''warning''"
  "lower ''error'' = ''error''"
  "lower ''Critical'' = ''critical''"
  "lower ''FATAL'' = ''fatal''"
  "lower ''verbose'' = ''verbose''"
  by code_simp+

text \<open>
  Claim C2. \<open>generate\<close> sets the threshold of both the logger and the file handler:
  to INFO when the level is absent, and for a level string whose lower-case form is
  debug, info, warning, error, critical or fatal to DEBUG, INFO, WARNING, ERROR,
  CRITICAL and CRITICAL. For any other non-empty level string it fails with
  InvalidConfiguration and changes nothing. With a valid level and a template the
  backend accepts it returns the logger.
\<close>

theorem generate_level_mapping:
  "thresholds self (snd (generate self None fmt w)) = (logging_INFO, logging_INFO) \<and>
   (lower s = ''debug'' \<longrightarrow>
      thresholds self (snd (generate self (Some s) fmt w)) = (logging_DEBUG, logging_DEBUG)) \<and>
   (lower s = ''info'' \<longrightarrow>
      thresholds self (snd (generate self (Some s) fmt w)) = (logging_INFO, logging_INFO)) \<and>
   (lower s = ''warning'' \<longrightarrow>
      thresholds self (snd (generate self (Some s) fmt w)) = (logging_WARNING, logging_WARNING)) \<and>
   (lower s = ''error'' \<longrightarrow>
      thresholds self (snd (generate self (Some s) fmt w)) = (logging_ERROR, logging_ERROR)) \<and>
   (lower s = ''critical'' \<or> lower s = ''fatal'' \<longrightarrow>
      thresholds self (snd (generate self (Some s) fmt w)) = (logging_CRITICAL, logging_CRITICAL)) \<and>
   (s \<noteq> [] \<and>
    lower s \<notin> {''debug'', ''info'', ''warning'', ''error'', ''critical'', ''fatal''} \<longrightarrow>
      generate self (Some s) fmt w = (Inl InvalidConfiguration, w)) \<and>
   (format_valid w (if truthy fmt then the fmt else default_format self) \<longrightarrow>
      fst (generate self None fmt w) = Inr (g_logger self) \<and>
      (lower s \<in> {''debug'', ''info'', ''warning'', ''error'', ''critical'', ''fatal''} \<longrightarrow>
         fst (generate self (Some s) fmt w) = Inr (g_logger self)))"
proof (intro conjI impI)
  show "thresholds self (snd (generate self None fmt w)) = (logging_INFO, logging_INFO)"
    by (rule generate_thresholds [OF parse_logger_level_None])
  show "thresholds self (snd (generate self (Some s) fmt w)) = (logging_DEBUG, logging_DEBUG)"
    if "lower s = ''debug''"
    by (rule generate_thresholds [OF parse_logger_level_debug [OF that]])
  show "thresholds self (snd (generate self (Some s) fmt w)) = (logging_INFO, logging_INFO)"
    if "lower s = ''info''"
    by (rule generate_thresholds [OF parse_logger_level_info [OF that]])
  show "thresholds self (snd (generate self (Some s) fmt w)) = (logging_WARNING, logging_WARNING)"
    if "lower s = ''warning''"
    by (rule generate_thresholds [OF parse_logger_level_warning [OF that]])
  show "thresholds self (snd (generate self (Some s) fmt w)) = (logging_ERROR, logging_ERROR)"
    if "lower s = ''error''"
    by (rule generate_thresholds [OF parse_logger_level_error_level [OF that]])
  show "thresholds self (snd (generate self (Some s) fmt w)) = (logging_CRITICAL, logging_CRITICAL)"
    if "lower s = ''critical'' \<or> lower s = ''fatal''"
    by (rule generate_thresholds [OF parse_logger_level_critical [OF that]])
  show "generate self (Some s) fmt w = (Inl InvalidConfiguration, w)"
    if "s \<noteq> [] \<and>
        lower s \<notin> {''debug'', ''info'', ''warning'', ''error'', ''critical'', ''fatal''}"
    using that generate_invalid [OF parse_logger_level_other [of s]] by blast
next
  assume fv: "format_valid w (if truthy fmt then the fmt else default_format self)"
  show "fst (generate self None fmt w) = Inr (g_logger self)"
    by (rule generate_returns [OF parse_logger_level_None fv])
  assume "lower s \<in> {''debug'', ''info'', ''warning'', ''error'', ''critical'', ''fatal''}"
  then have "\<exists>v. parse_logger_level (Some s) = Inr v"
    using parse_logger_level_debug [of s] parse_logger_level_info [of s]
      parse_logger_level_warning [of s] parse_logger_level_error_level [of s]
      parse_logger_level_critical [of s]
    by blast
  then show "fst (generate self (Some s) fmt w) = Inr (g_logger self)"
    using generate_returns [OF _ fv] by blast
qed

theorem generate_level_mapping_witness:
  "thresholds test_generator (snd (generate test_generator None None test_world))
     = (logging_INFO, logging_INFO) \<and>
   thresholds test_generator (snd (generate test_generator (Some ''DeBuG'') None test_world))
     = (logging_DEBUG, logging_DEBUG) \<and>
   thresholds test_generator (snd (generate test_generator (Some ''Info'') None test_world))
     = (logging_INFO, logging_INFO) \<and>
   thresholds test_generator (snd (generate test_generator (Some ''WARNING'') None test_world))
     = (logging_WARNING, logging_WARNING) \<and>
   thresholds test_generator (snd (generate test_generator (Some ''error'') None test_world))
     = (logging_ERROR, logging_ERROR) \<and>
   thresholds test_generator (snd (generate test_generator (Some ''Critical'') None test_world))
     = (logging_CRITICAL, logging_CRITICAL) \<and>
   thresholds test_generator (snd (generate test_generator (Some ''FATAL'') None test_world))
     = (logging_CRITICAL, logging_CRITICAL) \<and>
   generate test_generator (Some ''verbose'') None test_world
     = (Inl InvalidConfiguration, test_world) \<and>
   fst (generate test_generator (Some ''FATAL'') None test_world) = Inr 0"
proof -
  have fv: "format_valid test_world x" for x
    by (simp add: test_world_def fresh_world_def)
  have g0: "g_logger test_generator = 0"
    by (simp add: test_generator_def)
  show ?thesis
    using generate_level_mapping [of test_generator None test_world "''DeBuG''"]
      generate_level_mapping [of test_generator None test_world "''Info''"]
      generate_level_mapping [of test_generator None test_world "''WARNING''"]
      generate_level_mapping [of test_generator None test_world "''error''"]
      generate_level_mapping [of test_generator None test_world "''Critical''"]
      generate_level_mapping [of test_generator None test_world "''FATAL''"]
      generate_level_mapping [of test_generator None test_world "''verbose''"]
    by (simp add: lower_examples fv g0)
qed

subsection \<open>Where the logger comes from, and its handlers\<close>

lemma generate_Inr_world:
  assumes "fst (generate g l f w) = Inr r"
  shows "r = g_logger g \<and>
    (\<exists>v fmt. snd (generate g l f w) =
       addHandler (g_logger g) (g_handler g)
         (setFormatter (g_handler g) fmt
            (setLevel (HandlerItem (g_handler g)) v (setLevel (LoggerItem (g_logger g)) v w))))"
proof (cases "parse_logger_level l")
  case (Inl e)
  with assms show ?thesis by (simp add: generate_def set_logger_level_def)
next
  case (Inr v)
  let ?wa = "setLevel (HandlerItem (g_handler g)) v (setLevel (LoggerItem (g_logger g)) v w)"
  have s1: "set_logger_level g l w = (Inr (), ?wa)"
    using Inr by (simp add: set_logger_level_def)
  show ?thesis
  proof (cases "Formatter (if truthy f then the f else default_format g) ?wa")
    case (Inl e)
    then have "apply_formatting g f ?wa = (Inl e, ?wa)"
      by (simp add: apply_formatting_def Let_def)
    with s1 assms show ?thesis by (simp add: generate_def)
  next
    case (Inr fmt)
    then have "apply_formatting g f ?wa = (Inr (), setFormatter (g_handler g) fmt ?wa)"
      by (simp add: apply_formatting_def Let_def)
    with s1 assms show ?thesis by (auto simp: generate_def)
  qed
qed

lemma LoggerGenerator_init_Inr:
  assumes "LoggerGenerator_init p n w = (Inr g, w1)"
  shows "g_handler g = next_handler w"
    and "next_handler w1 = Suc (next_handler w)"
    and "loggerDict w1 (if truthy n then the n else ''messagehandler'') = Some (g_logger g)"
    and "lg_handlers (loggers w1 (g_logger g))
           = attached w (if truthy n then the n else ''messagehandler'')"
    and "file_handlers w1 = (file_handlers w)
           (next_handler w := \<lparr>fh_path = p, fh_level = logging_NOTSET, fh_formatter = None\<rparr>)"
    and "set (lg_handlers (loggers w1 r')) \<subseteq> set (lg_handlers (loggers w r'))"
  using assms
  by (auto simp: LoggerGenerator_init_def create_logger_def getLogger_def
                 create_file_handler_def FileHandler_def attached_def Let_def
           split: option.splits if_splits)

lemma configured_world:
  "loggerDict (addHandler r h (setFormatter h fmt
      (setLevel (HandlerItem h) v (setLevel (LoggerItem r) v w)))) = loggerDict w"
  "next_handler (addHandler r h (setFormatter h fmt
      (setLevel (HandlerItem h) v (setLevel (LoggerItem r) v w)))) = next_handler w"
  "lg_handlers (loggers (addHandler r h (setFormatter h fmt
      (setLevel (HandlerItem h) v (setLevel (LoggerItem r) v w)))) r) =
     (if h \<in> set (lg_handlers (loggers w r)) then lg_handlers (loggers w r)
      else lg_handlers (loggers w r) @ [h])"
  "r' \<noteq> r \<Longrightarrow>
     lg_handlers (loggers (addHandler r h (setFormatter h fmt
       (setLevel (HandlerItem h) v (setLevel (LoggerItem r) v w)))) r')
       = lg_handlers (loggers w r')"
  "fh_path (file_handlers (addHandler r h (setFormatter h fmt
      (setLevel (HandlerItem h) v (setLevel (LoggerItem r) v w)))) h')
     = fh_path (file_handlers w h')"
  "h' \<noteq> h \<Longrightarrow>
     file_handlers (addHandler r h (setFormatter h fmt
       (setLevel (HandlerItem h) v (setLevel (LoggerItem r) v w)))) h' = file_handlers w h'"
  by (simp_all add: addHandler_def setFormatter_def)

lemma generate_world_cases:
  "snd (generate g l f w) = w \<or>
   (\<exists>v. snd (generate g l f w) =
      setLevel (HandlerItem (g_handler g)) v (setLevel (LoggerItem (g_logger g)) v w)) \<or>
   (\<exists>v fmt. snd (generate g l f w) =
      addHandler (g_logger g) (g_handler g)
        (setFormatter (g_handler g) fmt
           (setLevel (HandlerItem (g_handler g)) v (setLevel (LoggerItem (g_logger g)) v w))))"
proof (cases "parse_logger_level l")
  case (Inl e)
  then show ?thesis by (simp add: generate_def set_logger_level_def)
next
  case (Inr v)
  let ?wa = "setLevel (HandlerItem (g_handler g)) v (setLevel (LoggerItem (g_logger g)) v w)"
  have s1: "set_logger_level g l w = (Inr (), ?wa)"
    using Inr by (simp add: set_logger_level_def)
  show ?thesis
  proof (cases "Formatter (if truthy f then the f else default_format g) ?wa")
    case (Inl e)
    then have "apply_formatting g f ?wa = (Inl e, ?wa)"
      by (simp add: apply_formatting_def Let_def)
    with s1 have "snd (generate g l f w) = ?wa" by (simp add: generate_def)
    then show ?thesis by blast
  next
    case (Inr fmt)
    then have "apply_formatting g f ?wa = (Inr (), setFormatter (g_handler g) fmt ?wa)"
      by (simp add: apply_formatting_def Let_def)
    with s1 have "snd (generate g l f w) =
        addHandler (g_logger g) (g_handler g) (setFormatter (g_handler g) fmt ?wa)"
      by (simp add: generate_def)
    then show ?thesis by blast
  qed
qed

lemma generate_again:
  assumes "g_handler g \<in> set (lg_handlers (loggers w (g_logger g)))"
  shows "attached (snd (generate g l f w)) name = attached w name"
  using generate_world_cases [of g l f w] assms
  by (auto simp: attached_def addHandler_def setFormatter_def split: option.splits)

lemma log_destinations_append:
  "log_destinations (xs @ ys) = log_destinations xs @ log_destinations ys"
  by (induction xs rule: log_destinations.induct) simp_all

lemmas backend_eval =
  generate_def set_logger_level_def parse_logger_level_def truthy_def apply_formatting_def
  Formatter_def setFormatter_def addHandler_def attached_def LoggerGenerator_init_def
  create_logger_def getLogger_def create_file_handler_def FileHandler_def
  test_generator_def test_world_def fresh_world_def Let_def


text \<open>
  Claim C7. Once the validation has passed, construction and \<open>set_logger\<close> resolve the
  logger in this order. A shared logger is adopted as the reference it is, the backend
  staying as it was: two objects built from the same shared logger, whatever their
  \<open>verbose\<close> and \<open>suppress_warnings\<close>, hand their records to that one logger. Without
  a shared logger and with a \<open>log_filepath\<close>, a \<open>LoggerGenerator\<close> is built from the
  path and the name, and what its \<open>generate\<close> returns for the level and the format is
  the active logger; an error of either step is the error of the operation. With
  neither, the logger is absent.
\<close>

theorem logger_resolution_order:
  "(\<not> truthy fp \<and> \<not> truthy n \<and> \<not> truthy l \<and> \<not> truthy f \<longrightarrow>
      (let a = \<lparr>verbose = vb, suppress_warnings = sw, logger = Some r,
                 use_threaded_log_locks = False, log_lock = False\<rparr>;
           b = \<lparr>verbose = vb', suppress_warnings = sw', logger = Some r,
                 use_threaded_log_locks = False, log_lock = False\<rparr>
       in MessageHandlingObject_init vb sw fp n l f (Some r) w = (Inr a, w) \<and>
          MessageHandlingObject_init vb' sw' fp n l f (Some r) w = (Inr b, w) \<and>
          set_logger self fp n l f (Some r) w = (Inr (), self\<lparr>logger := Some r\<rparr>, w) \<and>
          log_destinations (trace (snd (snd (mh_warn b m' (snd (snd (mh_print a m kwargs w)))))))
            = log_destinations (trace w) @ [r, r])) \<and>
   MessageHandlingObject_init vb sw (Some p) n l f None w =
     (case LoggerGenerator_init p n w of
        (Inl e, w1) \<Rightarrow> (Inl e, w1)
      | (Inr g, w1) \<Rightarrow>
          (case generate g l f w1 of
             (Inl e, w2) \<Rightarrow> (Inl e, w2)
           | (Inr lg, w2) \<Rightarrow>
               (Inr \<lparr>verbose = vb, suppress_warnings = sw, logger = Some lg,
                     use_threaded_log_locks = False, log_lock = False\<rparr>, w2))) \<and>
   set_logger self (Some p) n l f None w =
     (case LoggerGenerator_init p n w of
        (Inl e, w1) \<Rightarrow> (Inl e, self, w1)
      | (Inr g, w1) \<Rightarrow>
          (case generate g l f w1 of
             (Inl e, w2) \<Rightarrow> (Inl e, self, w2)
           | (Inr lg, w2) \<Rightarrow> (Inr (), self\<lparr>logger := Some lg\<rparr>, w2))) \<and>
   MessageHandlingObject_init vb sw None n l f None w =
     (Inr \<lparr>verbose = vb, suppress_warnings = sw, logger = None,
           use_threaded_log_locks = False, log_lock = False\<rparr>, w) \<and>
   set_logger self None n l f None w = (Inr (), self\<lparr>logger := None\<rparr>, w)"
proof (intro conjI impI)
  assume falsy: "\<not> truthy fp \<and> \<not> truthy n \<and> \<not> truthy l \<and> \<not> truthy f"
  then have sh: "init_logger fp n l f (Some r) w = (Inr (Some r), w)"
    by (simp add: init_logger_shared)
  let ?a = "\<lparr>verbose = vb, suppress_warnings = sw, logger = Some r,
             use_threaded_log_locks = False, log_lock = False\<rparr>"
  let ?b = "\<lparr>verbose = vb', suppress_warnings = sw', logger = Some r,
             use_threaded_log_locks = False, log_lock = False\<rparr>"
  have pa: "mh_print ?a m kwargs w =
      (Returned (), ?a,
       w\<lparr>trace := trace w @ (if vb then [Console m kwargs] else []) @
                     [LogCall r logging_INFO (Text m) False]\<rparr>)"
    by (simp add: mh_print_trace)
  have dest: "log_destinations (trace (snd (snd (mh_warn ?b m' (snd (snd (mh_print ?a m kwargs w)))))))
            = log_destinations (trace w) @ [r, r]"
    by (simp add: pa mh_warn_trace log_destinations_append)
  show "let a = ?a; b = ?b
       in MessageHandlingObject_init vb sw fp n l f (Some r) w = (Inr a, w) \<and>
          MessageHandlingObject_init vb' sw' fp n l f (Some r) w = (Inr b, w) \<and>
          set_logger self fp n l f (Some r) w = (Inr (), self\<lparr>logger := Some r\<rparr>, w) \<and>
          log_destinations (trace (snd (snd (mh_warn b m' (snd (snd (mh_print a m kwargs w)))))))
            = log_destinations (trace w) @ [r, r]"
    unfolding Let_def using dest
    by (simp add: MessageHandlingObject_init_def set_logger_def sh)
next
  show "MessageHandlingObject_init vb sw (Some p) n l f None w =
     (case LoggerGenerator_init p n w of
        (Inl e, w1) \<Rightarrow> (Inl e, w1)
      | (Inr g, w1) \<Rightarrow>
          (case generate g l f w1 of
             (Inl e, w2) \<Rightarrow> (Inl e, w2)
           | (Inr lg, w2) \<Rightarrow>
               (Inr \<lparr>verbose = vb, suppress_warnings = sw, logger = Some lg,
                     use_threaded_log_locks = False, log_lock = False\<rparr>, w2)))"
    by (simp add: MessageHandlingObject_init_def init_logger_generated
             split: prod.splits sum.splits)
  show "set_logger self (Some p) n l f None w =
     (case LoggerGenerator_init p n w of
        (Inl e, w1) \<Rightarrow> (Inl e, self, w1)
      | (Inr g, w1) \<Rightarrow>
          (case generate g l f w1 of
             (Inl e, w2) \<Rightarrow> (Inl e, self, w2)
           | (Inr lg, w2) \<Rightarrow> (Inr (), self\<lparr>logger := Some lg\<rparr>, w2)))"
    by (simp add: set_logger_def init_logger_generated split: prod.splits sum.splits)
  show "MessageHandlingObject_init vb sw None n l f None w =
     (Inr \<lparr>verbose = vb, suppress_warnings = sw, logger = None,
           use_threaded_log_locks = False, log_lock = False\<rparr>, w)"
    by (simp add: MessageHandlingObject_init_def init_logger_absent)
  show "set_logger self None n l f None w = (Inr (), self\<lparr>logger := None\<rparr>, w)"
    by (simp add: set_logger_def init_logger_absent)
qed

theorem logger_resolution_order_witness:
  "MessageHandlingObject_init False False (Some ''test.log'') (Some ''testing'') None None None
       fresh_world
     = (Inr (silent_object\<lparr>logger := Some 0\<rparr>),
        snd (generate test_generator None None test_world)) \<and>
   MessageHandlingObject_init True False None (Some []) None None (Some 0)
       (snd (generate test_generator None None test_world))
     = (Inr shared_object, snd (generate test_generator None None test_world)) \<and>
   MessageHandlingObject_init False True None (Some []) None None (Some 0)
       (snd (generate test_generator None None test_world))
     = (Inr (silent_object\<lparr>suppress_warnings := True, logger := Some 0\<rparr>),
        snd (generate test_generator None None test_world)) \<and>
   log_destinations (trace (snd (snd
       (mh_warn (silent_object\<lparr>suppress_warnings := True, logger := Some 0\<rparr>) ''Warning text''
          (snd (snd (mh_print shared_object ''Info text'' []
                       (snd (generate test_generator None None test_world))))))))) = [0, 0] \<and>
   MessageHandlingObject_init False False None (Some ''testing'') None None None fresh_world
     = (Inr silent_object, fresh_world)"
proof -
  let ?W = "snd (generate test_generator None None test_world)"
  have gen1: "fst (generate test_generator None None test_world) = Inr 0"
    by (simp add: backend_eval)
  have tr: "trace ?W = []"
    by (simp add: backend_eval)
  have a: "\<lparr>verbose = True, suppress_warnings = False, logger = Some 0,
            use_threaded_log_locks = False, log_lock = False\<rparr> = shared_object"
    by (simp add: shared_object_def)
  have b: "\<lparr>verbose = False, suppress_warnings = True, logger = Some 0,
            use_threaded_log_locks = False, log_lock = False\<rparr>
          = silent_object\<lparr>suppress_warnings := True, logger := Some 0\<rparr>"
    by (simp add: silent_object_def)
  have c: "\<lparr>verbose = False, suppress_warnings = False, logger = Some 0,
            use_threaded_log_locks = False, log_lock = False\<rparr>
          = silent_object\<lparr>logger := Some 0\<rparr>"
    by (simp add: silent_object_def)
  have d: "\<lparr>verbose = False, suppress_warnings = False, logger = None,
            use_threaded_log_locks = False, log_lock = False\<rparr> = silent_object"
    by (simp add: silent_object_def)
  note first = logger_resolution_order [of None "Some ''testing''" None None False False 0
      False False fresh_world silent_object "[]" "[]" "[]" "''test.log''"]
  note second = logger_resolution_order [of None "Some []" None None True False 0 False True
      ?W silent_object "''Warning text''" "''Info text''" "[]" "''test.log''"]
  from first [THEN conjunct2, THEN conjunct1]
  have built: "MessageHandlingObject_init False False (Some ''test.log'') (Some ''testing'')
      None None None fresh_world = (Inr (silent_object\<lparr>logger := Some 0\<rparr>), ?W)"
    by (simp add: test_generator_built case_prod_beta gen1 c)
  from first [THEN conjunct2, THEN conjunct2, THEN conjunct2, THEN conjunct1]
  have absent: "MessageHandlingObject_init False False None (Some ''testing'') None None None
      fresh_world = (Inr silent_object, fresh_world)"
    by (simp add: d)
  have "\<not> truthy None \<and> \<not> truthy (Some []) \<and> \<not> truthy None \<and> \<not> truthy None"
    by (simp add: truthy_def)
  with second [THEN conjunct1]
  have shared: "MessageHandlingObject_init True False None (Some []) None None (Some 0) ?W
        = (Inr shared_object, ?W) \<and>
      MessageHandlingObject_init False True None (Some []) None None (Some 0) ?W
        = (Inr (silent_object\<lparr>suppress_warnings := True, logger := Some 0\<rparr>), ?W) \<and>
      log_destinations (trace (snd (snd
       (mh_warn (silent_object\<lparr>suppress_warnings := True, logger := Some 0\<rparr>) ''Warning text''
          (snd (snd (mh_print shared_object ''Info text'' [] ?W))))))) = [0, 0]"
    by (simp add: Let_def a b tr)
  from built shared absent show ?thesis by blast
qed

text \<open>
  Claim C8, as the code has it. The file handler is created by the constructor of
  \<open>LoggerGenerator\<close>, one new handler for each generator, and \<open>generate\<close> attaches the
  generator's handler to the logger after those that are attached already, whatever
  their names and paths: nothing is deduplicated by name or path, the handlers made
  before stay as they are, and building a generator and calling \<open>generate\<close> once more
  for the same destination adds one more handler. A further \<open>generate\<close> on the same
  generator attaches nothing. (The hypothesis says that the handlers attached so far
  were made by the backend; the result keeps it.)
\<close>

theorem generate_attaches_new_handler:
  assumes alloc: "\<forall>r. \<forall>h\<in>set (lg_handlers (loggers w r)). h < next_handler w"
    and init: "LoggerGenerator_init p n w = (Inr g, w1)"
    and gen: "fst (generate g l f w1) = Inr r"
  shows "g_handler g = next_handler w \<and>
    loggerDict (snd (generate g l f w1)) (if truthy n then the n else ''messagehandler'') = Some r \<and>
    attached (snd (generate g l f w1)) (if truthy n then the n else ''messagehandler'')
      = attached w (if truthy n then the n else ''messagehandler'') @ [g_handler g] \<and>
    fh_path (file_handlers (snd (generate g l f w1)) (g_handler g)) = p \<and>
    (\<forall>h<next_handler w. file_handlers (snd (generate g l f w1)) h = file_handlers w h) \<and>
    (\<forall>r. \<forall>h\<in>set (lg_handlers (loggers (snd (generate g l f w1)) r)).
        h < next_handler (snd (generate g l f w1))) \<and>
    attached (snd (generate g l' f' (snd (generate g l f w1))))
        (if truthy n then the n else ''messagehandler'')
      = attached (snd (generate g l f w1)) (if truthy n then the n else ''messagehandler'')"
proof -
  let ?name = "if truthy n then the n else ''messagehandler''"
  let ?w2 = "snd (generate g l f w1)"
  note i = LoggerGenerator_init_Inr [OF init]
  from generate_Inr_world [OF gen] obtain v fmt where
    r: "r = g_logger g" and
    w2: "?w2 = addHandler (g_logger g) (g_handler g)
         (setFormatter (g_handler g) fmt
            (setLevel (HandlerItem (g_handler g)) v (setLevel (LoggerItem (g_logger g)) v w1)))"
    by blast
  have new: "g_handler g \<notin> set (lg_handlers (loggers w1 r'))" for r'
    using i(6) [of r'] alloc i(1) by auto
  have dict: "loggerDict ?w2 ?name = Some r"
    unfolding w2 configured_world using i(3) r by simp
  have hs: "lg_handlers (loggers ?w2 (g_logger g)) = attached w ?name @ [g_handler g]"
    unfolding w2 configured_world using new [of "g_logger g"] i(4) by simp
  have att: "attached ?w2 ?name = attached w ?name @ [g_handler g]"
    using dict hs r by (simp add: attached_def)
  have path: "fh_path (file_handlers ?w2 (g_handler g)) = p"
    unfolding w2 configured_world using i(1) i(5) by simp
  have old: "file_handlers ?w2 h = file_handlers w h" if "h < next_handler w" for h
  proof -
    from that i(1) have "h \<noteq> g_handler g" by simp
    then have "file_handlers ?w2 h = file_handlers w1 h"
      unfolding w2 by (rule configured_world)
    with that show ?thesis by (simp add: i(5))
  qed
  have nh: "next_handler ?w2 = Suc (next_handler w)"
    unfolding w2 configured_world using i(2) .
  have before: "h < next_handler w" if "h \<in> set (lg_handlers (loggers w1 r'))" for r' h
    using that i(6) [of r'] alloc by blast
  have alloc2: "h < next_handler ?w2" if "h \<in> set (lg_handlers (loggers ?w2 r'))" for r' h
  proof (cases "r' = g_logger g")
    case True
    with that hs have "h \<in> set (lg_handlers (loggers w1 (g_logger g))) \<or> h = g_handler g"
      by (auto simp: i(4))
    then have "h < next_handler w \<or> h = next_handler w"
      using before [of h "g_logger g"] i(1) by blast
    then show ?thesis by (auto simp: nh)
  next
    case False
    then have "lg_handlers (loggers ?w2 r') = lg_handlers (loggers w1 r')"
      unfolding w2 by (rule configured_world)
    with that have "h < next_handler w" using before [of h r'] by simp
    then show ?thesis by (simp add: nh)
  qed
  have again: "attached (snd (generate g l' f' ?w2)) ?name = attached ?w2 ?name"
    by (rule generate_again) (simp add: hs)
  from i(1) dict att path old alloc2 again show ?thesis by blast
qed

theorem generate_attaches_new_handler_witness:
  "LoggerGenerator_init ''test.log'' (Some ''testing'')
       (snd (generate test_generator None None test_world))
     = (Inr (test_generator\<lparr>g_handler := 1\<rparr>),
        snd (LoggerGenerator_init ''test.log'' (Some ''testing'')
               (snd (generate test_generator None None test_world)))) \<and>
   attached (snd (generate test_generator None None test_world)) ''testing'' = [0] \<and>
   attached (snd (generate (test_generator\<lparr>g_handler := 1\<rparr>) None None
       (snd (LoggerGenerator_init ''test.log'' (Some ''testing'')
               (snd (generate test_generator None None test_world))))))
     ''testing'' = [0, 1] \<and>
   fh_path (file_handlers (snd (generate (test_generator\<lparr>g_handler := 1\<rparr>) None None
       (snd (LoggerGenerator_init ''test.log'' (Some ''testing'')
               (snd (generate test_generator None None test_world)))))) 1) = ''test.log'' \<and>
   fh_path (file_handlers (snd (generate (test_generator\<lparr>g_handler := 1\<rparr>) None None
       (snd (LoggerGenerator_init ''test.log'' (Some ''testing'')
               (snd (generate test_generator None None test_world)))))) 0) = ''test.log''"
proof -
  let ?w2 = "snd (generate test_generator None None test_world)"
  let ?g2 = "test_generator\<lparr>g_handler := 1\<rparr>"
  let ?w3 = "snd (LoggerGenerator_init ''test.log'' (Some ''testing'') ?w2)"
  have alloc0: "\<forall>r. \<forall>h\<in>set (lg_handlers (loggers fresh_world r)). h < next_handler fresh_world"
    by (simp add: fresh_world_def)
  have gen1: "fst (generate test_generator None None test_world) = Inr 0"
    by (simp add: backend_eval)
  have none0: "attached fresh_world ''testing'' = []"
    by (simp add: attached_def fresh_world_def)
  have nh0: "next_handler fresh_world = 0"
    by (simp add: fresh_world_def)
  note round1 = generate_attaches_new_handler [OF alloc0 test_generator_built gen1]
  have init2: "LoggerGenerator_init ''test.log'' (Some ''testing'') ?w2 = (Inr ?g2, ?w3)"
    by (rule prod_eqI) (simp_all add: backend_eval)
  have gen2: "fst (generate ?g2 None None ?w3) = Inr 0"
    by (simp add: backend_eval)
  have h2: "g_handler ?g2 = 1" by simp
  have nh2: "next_handler ?w2 = 1"
    by (simp add: backend_eval)
  have path0: "fh_path (file_handlers ?w2 0) = ''test.log''"
    using round1 by (simp add: test_generator_def)
  from round1 have alloc2: "\<forall>r. \<forall>h\<in>set (lg_handlers (loggers ?w2 r)). h < next_handler ?w2"
    by blast
  note round2 = generate_attaches_new_handler [OF alloc2 init2 gen2]
  from round1 have a1: "attached ?w2 ''testing'' = [0]"
    by (simp add: truthy_def none0 test_generator_def)
  from round2 [THEN conjunct2, THEN conjunct2, THEN conjunct1]
  have a2: "attached (snd (generate ?g2 None None ?w3)) ''testing'' = [0, 1]"
    by (simp add: truthy_def a1)
  from round2 [THEN conjunct2, THEN conjunct2, THEN conjunct2, THEN conjunct1]
  have p1: "fh_path (file_handlers (snd (generate ?g2 None None ?w3)) 1) = ''test.log''"
    by simp
  from round2 [THEN conjunct2, THEN conjunct2, THEN conjunct2, THEN conjunct2, THEN conjunct1]
  have "file_handlers (snd (generate ?g2 None None ?w3)) 0 = file_handlers ?w2 0"
    by (simp add: nh2)
  with path0 have p0: "fh_path (file_handlers (snd (generate ?g2 None None ?w3)) 0) = ''test.log''"
    by simp
  from init2 a1 a2 p1 p0 show ?thesis by blast
qed

text \<open>
  Claim C8 as stated fails for a second call of \<open>generate\<close> on one generator: the
  call makes no handler, and the logger still has the single handler it had.
\<close>

theorem repeated_generate_counterexample:
  "LoggerGenerator_init ''test.log'' (Some ''testing'') fresh_world
     = (Inr test_generator, test_world) \<and>
   fst (generate test_generator None None test_world) = Inr 0 \<and>
   attached (snd (generate test_generator None None test_world)) ''testing'' = [0] \<and>
   fst (generate test_generator None None (snd (generate test_generator None None test_world)))
     = Inr 0 \<and>
   attached (snd (generate test_generator None None
       (snd (generate test_generator None None test_world)))) ''testing'' = [0]"
  by (simp add: test_generator_built) (simp add: backend_eval)

end
